theory Spec2Isabelle
  imports Complex_Main "HOL-Library.AList"
begin

section \<open>The client's incremental message decoder\<close>

text \<open>
  \<^verbatim>\<open>ChessClient.receive_data\<close> (client_updated_fixed.py) keeps a text buffer, appends
  every read to it and then repeatedly cuts one message off its front. The end of a
  message is found by a scan over the characters of the buffer that tracks a brace depth,
  whether the scan is inside a quoted string, and whether the previous character was a
  backslash. The span that was cut off is handed to \<^verbatim>\<open>json.loads\<close>, which belongs to
  Python's library and is a parameter \<open>loads\<close> here (\<open>None\<close> stands for
  \<^verbatim>\<open>JSONDecodeError\<close>). Reads are modelled after \<^verbatim>\<open>.decode()\<close>, as strings.
\<close>

text \<open>The characters \<^verbatim>\<open>str.strip()\<close> removes, as far as they exist among 8-bit characters.\<close>

definition is_space :: "char \<Rightarrow> bool" where
  "is_space c \<longleftrightarrow>
     (let n = of_char c :: nat
      in (9 \<le> n \<and> n \<le> 13) \<or> (28 \<le> n \<and> n \<le> 32) \<or> n = 133 \<or> n = 160)"

definition strip :: "string \<Rightarrow> string" where
  "strip s = rev (dropWhile is_space (rev (dropWhile is_space s)))"

text \<open>
  The \<^verbatim>\<open>for i, char in enumerate(buffer)\<close> loop. The result is \<^verbatim>\<open>msg_end\<close>: the index
  after the closing brace that brings the depth back to zero, or 0 when the loop runs to
  the end of the buffer.
\<close>

fun scan :: "string \<Rightarrow> nat \<Rightarrow> int \<Rightarrow> bool \<Rightarrow> bool \<Rightarrow> nat" where
  "scan [] i json_depth in_string escape_next = 0"
| "scan (c # cs) i json_depth in_string escape_next =
     (if escape_next then scan cs (i + 1) json_depth in_string False
      else if c = CHR 0x5C then scan cs (i + 1) json_depth in_string True
      else if c = CHR 0x22 then scan cs (i + 1) json_depth (\<not> in_string) False
      else if \<not> in_string then
        (if c = CHR ''{'' then scan cs (i + 1) (json_depth + 1) in_string False
         else if c = CHR ''}'' then
           (if json_depth - 1 = 0 then i + 1
            else scan cs (i + 1) (json_depth - 1) in_string False)
         else scan cs (i + 1) json_depth in_string False)
      else scan cs (i + 1) json_depth in_string False)"

definition find_msg_end :: "string \<Rightarrow> nat" where
  "find_msg_end buffer = scan buffer 0 0 False False"

lemma length_strip_le: "length (strip s) \<le> length s"
proof -
  have "length (strip s) \<le> length (dropWhile is_space s)"
    unfolding strip_def using length_dropWhile_le [of is_space "rev (dropWhile is_space s)"]
    by simp
  also have "\<dots> \<le> length s" by (rule length_dropWhile_le)
  finally show ?thesis .
qed

text \<open>
  The \<^verbatim>\<open>while buffer:\<close> loop. It returns the messages decoded in this pass, in order,
  and the buffer it leaves behind. A span that \<open>loads\<close> rejects has already been cut off
  the buffer when the error is raised; the handler empties the buffer when what is left
  is longer than 1000 characters and leaves the loop.
\<close>

function process_buffer :: "(string \<Rightarrow> 'j option) \<Rightarrow> string \<Rightarrow> 'j list \<times> string" where
  "process_buffer loads buffer =
     (if buffer = [] then ([], buffer)
      else
        let msg_end = find_msg_end buffer
        in if msg_end = 0 then ([], buffer)
           else
             let msg_str = take msg_end buffer;
                 buffer' = strip (drop msg_end buffer)
             in case loads msg_str of
                  None \<Rightarrow> ([], if length buffer' > 1000 then [] else buffer')
                | Some msg \<Rightarrow>
                    (case process_buffer loads buffer' of (msgs, rest) \<Rightarrow> (msg # msgs, rest)))"
  by pat_completeness auto
termination
proof (relation "measure (\<lambda>(loads, buffer). length buffer)")
  show "wf (measure (\<lambda>(loads :: string \<Rightarrow> 'j option, buffer). length buffer))" by simp
next
  fix loads :: "string \<Rightarrow> 'j option" and buffer msg_end msg_str buffer' msg
  assume ne: "buffer \<noteq> []" and e: "msg_end = find_msg_end buffer" "msg_end \<noteq> 0"
    and b: "buffer' = strip (drop msg_end buffer)"
  have "length buffer' \<le> length (drop msg_end buffer)"
    unfolding b by (rule length_strip_le)
  also have "\<dots> < length buffer" using ne e by (cases buffer) auto
  finally show "((loads, buffer'), (loads, buffer)) \<in> measure (\<lambda>(loads, buffer). length buffer)"
    by simp
qed

declare process_buffer.simps [simp del]

text \<open>
  The receiver thread: its local \<^verbatim>\<open>buffer\<close> and the \<^verbatim>\<open>self.connected\<close> flag that
  keeps the outer loop running. An empty read is the end of the stream.
\<close>

record receiver =
  buffer :: string
  connected :: bool

definition receive_chunk ::
  "(string \<Rightarrow> 'j option) \<Rightarrow> receiver \<Rightarrow> string \<Rightarrow> 'j list \<times> receiver" where
  "receive_chunk loads r data =
     (if \<not> connected r then ([], r)
      else if data = [] then ([], r\<lparr>connected := False\<rparr>)
      else case process_buffer loads (buffer r @ data) of
             (msgs, rest) \<Rightarrow> (msgs, r\<lparr>buffer := rest\<rparr>))"

fun receive_data :: "(string \<Rightarrow> 'j option) \<Rightarrow> receiver \<Rightarrow> string list \<Rightarrow> 'j list \<times> receiver" where
  "receive_data loads r [] = ([], r)"
| "receive_data loads r (data # reads) =
     (case receive_chunk loads r data of
        (msgs, r') \<Rightarrow> (case receive_data loads r' reads of (msgs', r'') \<Rightarrow> (msgs @ msgs', r'')))"

definition new_receiver :: receiver where
  "new_receiver = \<lparr>buffer = [], connected = True\<rparr>"


section \<open>The rules engine\<close>

text \<open>
  Board and move semantics come from the python-chess library, which the repository
  imports and does not contain. A board is modelled by what the repository's code can
  observe of it: the side to move (\<^verbatim>\<open>board.turn\<close>, \<open>True\<close> for \<^verbatim>\<open>chess.WHITE\<close>), the
  position it started from and the stack of moves pushed since. \<^verbatim>\<open>board.push(move)\<close>
  appends the move and hands the turn to the other side. Everything else the library
  computes from a board (legality, terminal conditions, the FEN text, the pieces) is a
  field of the record \<open>rules\<close>, a parameter of every function that calls the library.
\<close>

type_synonym color = bool

datatype move = Move nat nat "nat option"

record board =
  board_turn :: color
  starting_fen :: string
  move_stack :: "move list"

definition new_board :: board where
  "new_board =
     \<lparr>board_turn = True,
      starting_fen = ''rnbqkbnr/pppppppp/8/8/8/8/PPPPPPPP/RNBQKBNR w KQkq - 0 1'',
      move_stack = []\<rparr>"

definition push :: "board \<Rightarrow> move \<Rightarrow> board" where
  "push b m = b\<lparr>board_turn := \<not> board_turn b, move_stack := move_stack b @ [m]\<rparr>"

datatype piece_type = PAWN | KNIGHT | BISHOP | ROOK | QUEEN | KING

record rules =
  from_uci :: "string \<Rightarrow> string + move"
  legal_moves :: "board \<Rightarrow> move list"
  is_checkmate :: "board \<Rightarrow> bool"
  is_stalemate :: "board \<Rightarrow> bool"
  is_insufficient_material :: "board \<Rightarrow> bool"
  is_game_over :: "board \<Rightarrow> bool"
  is_check :: "board \<Rightarrow> bool"
  is_capture :: "board \<Rightarrow> move \<Rightarrow> bool"
  fen :: "board \<Rightarrow> string"
  piece_at :: "board \<Rightarrow> nat \<Rightarrow> (piece_type \<times> color) option"

section \<open>The server: data model\<close>

text \<open>
  server.py keeps four module-level registries (\<^verbatim>\<open>lobby\<close>, \<^verbatim>\<open>games\<close>,
  \<^verbatim>\<open>waiting_games\<close>, \<^verbatim>\<open>spectators\<close>) whose values are references to shared, mutable
  \<^verbatim>\<open>GameSession\<close> objects. The model keeps the objects in a store \<open>heap\<close> indexed by
  object identity and the registries as association lists in insertion order, as Python
  dictionaries are. A connection is identified by a number given at accept time. Each
  running \<^verbatim>\<open>handle_client\<close> thread has two locals that outlive one message: \<^verbatim>\<open>addr\<close>
  and \<^verbatim>\<open>assigned_role\<close>; they are kept in \<open>handlers\<close>, which is \<open>None\<close> for a
  connection whose thread has not started or has finished.

  Messages arrive as JSON objects. The model keeps the two kinds of values the handlers
  compare and print: strings and \<^verbatim>\<open>None\<close>. Messages that are sent are recorded, in
  order, as pairs of the receiving connection and the message; the transport itself
  (whether the peer still reads) is outside the model.
\<close>

type_synonym conn = nat
type_synonym addr = "string \<times> nat"
type_synonym ref = nat

datatype jval = JNull | JStr string

type_synonym msg = "string \<Rightarrow> jval option"

definition get :: "msg \<Rightarrow> string \<Rightarrow> jval" where
  "get m k = (case m k of None \<Rightarrow> JNull | Some v \<Rightarrow> v)"

definition get_default :: "msg \<Rightarrow> string \<Rightarrow> jval \<Rightarrow> jval" where
  "get_default m k d = (case m k of None \<Rightarrow> d | Some v \<Rightarrow> v)"

definition py_str :: "jval \<Rightarrow> string" where
  "py_str v = (case v of JNull \<Rightarrow> ''None'' | JStr s \<Rightarrow> s)"

definition truthy :: "jval \<Rightarrow> bool" where
  "truthy v = (case v of JNull \<Rightarrow> False | JStr s \<Rightarrow> s \<noteq> [])"

datatype server_msg =
    Info string
  | Error string
  | LobbyUpdate "string list" "(string \<times> string \<times> bool) list"
  | BoardMsg string
  | TurnMsg string "string option" "nat option"
  | MoveMsg string string
  | TimeoutSync string string string
  | GameOver string string
  | Chat string
  | GameNotFound jval "string list"

type_synonym outs = "(conn \<times> server_msg) list"

record GameSession =
  board :: board
  white_conn :: "conn option"
  black_conn :: "conn option"
  players :: "color \<Rightarrow> conn option"
  turn :: color
  game_spectators :: "conn list"
  game_id :: string
  last_move_time :: real
  creator_conn :: "conn option"
  creator_address :: "addr option"
  password :: jval
  is_private :: bool
  black_addr :: "addr option"

datatype role = Player | Spectator

record client =
  addr :: addr
  assigned_role :: "role option"

record server =
  lobby :: "(conn \<times> addr) list"
  games :: "(conn \<times> ref) list"
  waiting_games :: "(string \<times> ref) list"
  spectators :: "(conn \<times> ref) list"
  heap :: "ref \<Rightarrow> GameSession"
  next_ref :: ref
  handlers :: "conn \<Rightarrow> client option"
  next_conn :: conn

definition MOVE_TIMEOUT_SECONDS :: nat where
  "MOVE_TIMEOUT_SECONDS = 60"

definition color_name :: "color \<Rightarrow> string" where
  "color_name c = (if c then ''White'' else ''Black'')"

text \<open>\<^verbatim>\<open>GameSession.__init__\<close>; \<open>now\<close> is the clock reading and \<open>uuid\<close> the fresh identifier.\<close>

definition GameSession_init ::
  "conn option \<Rightarrow> conn option \<Rightarrow> conn option \<Rightarrow> addr option \<Rightarrow> jval \<Rightarrow> real \<Rightarrow> string
     \<Rightarrow> GameSession" where
  "GameSession_init white black creator creator_addr pw now uuid =
     \<lparr>board = new_board,
      white_conn = white,
      black_conn = black,
      players = (\<lambda>c. if c then white else black),
      turn = True,
      game_spectators = [],
      game_id = uuid,
      last_move_time = now,
      creator_conn = creator,
      creator_address = creator_addr,
      password = pw,
      is_private = (pw \<noteq> JNull),
      black_addr = None\<rparr>"

definition init_server :: server where
  "init_server =
     \<lparr>lobby = [], games = [], waiting_games = [], spectators = [],
      heap = (\<lambda>_. GameSession_init None None None None JNull 0 []),
      next_ref = 0, handlers = (\<lambda>_. None), next_conn = 0\<rparr>"

text \<open>\<^verbatim>\<open>GameSession.opponent\<close>.\<close>

definition opponent :: "GameSession \<Rightarrow> conn \<Rightarrow> conn option" where
  "opponent g c = (if Some c = white_conn g then black_conn g else white_conn g)"

text \<open>
  \<^verbatim>\<open>GameSession.broadcast\<close>: both seats, then the spectators in order. A seat that is
  \<^verbatim>\<open>None\<close> makes \<^verbatim>\<open>conn.send\<close> raise inside the \<^verbatim>\<open>try\<close>, and the loop goes on.
\<close>

definition seats :: "GameSession \<Rightarrow> conn list" where
  "seats g = List.map_filter id [white_conn g, black_conn g]"

definition broadcast :: "GameSession \<Rightarrow> server_msg \<Rightarrow> outs" where
  "broadcast g data = map (\<lambda>c. (c, data)) (seats g @ game_spectators g)"

text \<open>\<^verbatim>\<open>broadcast_lobby\<close>.\<close>

definition host_of :: "addr option \<Rightarrow> string" where
  "host_of a = (case a of None \<Rightarrow> [] | Some x \<Rightarrow> fst x)"

definition lobby_state :: "server \<Rightarrow> server_msg" where
  "lobby_state s =
     LobbyUpdate (map (\<lambda>(c, a). fst a) (lobby s))
       (map (\<lambda>(gid, r). (gid, host_of (creator_address (heap s r)), is_private (heap s r)))
          (waiting_games s))"

definition broadcast_lobby :: "server \<Rightarrow> outs" where
  "broadcast_lobby s = map (\<lambda>(c, a). (c, lobby_state s)) (lobby s)"

text \<open>\<^verbatim>\<open>GameSession.add_spectator\<close>.\<close>

definition add_spectator :: "rules \<Rightarrow> GameSession \<Rightarrow> conn \<Rightarrow> GameSession \<times> outs" where
  "add_spectator E g c =
     (g\<lparr>game_spectators := game_spectators g @ [c]\<rparr>,
      [(c, Info (''You are now spectating Game #'' @ game_id g)),
       (c, BoardMsg (fen E (board g))),
       (c, TurnMsg (color_name (turn g)) None None)])"

text \<open>\<^verbatim>\<open>GameSession.next_turn\<close>; the result says whether the status is \<^verbatim>\<open>"ended"\<close>.\<close>

definition next_turn :: "rules \<Rightarrow> real \<Rightarrow> GameSession \<Rightarrow> GameSession \<times> outs \<times> bool" where
  "next_turn E now g =
     (let g1 = g\<lparr>turn := \<not> turn g, last_move_time := now\<rparr>;
          (ended, notice) =
            (if is_checkmate E (board g1) then
               (True, broadcast g1
                  (Info (''Checkmate! '' @ (if turn g1 then ''Black'' else ''White'') @ '' wins!'')))
             else if is_stalemate E (board g1) then
               (True, broadcast g1 (Info ''Stalemate! Game ends in a draw.''))
             else if is_insufficient_material E (board g1) then
               (True, broadcast g1 (Info ''Draw due to insufficient material.''))
             else (False, []))
      in (g1,
          notice
          @ broadcast g1
              (TurnMsg (color_name (turn g1)) (Some (if ended then ''ended'' else ''active''))
                 (Some MOVE_TIMEOUT_SECONDS))
          @ broadcast g1 (BoardMsg (fen E (board g1))),
          ended))"


section \<open>The server: connection handler\<close>

text \<open>
  One read of a handler's socket: the end of the stream, text that \<^verbatim>\<open>json.loads\<close>
  rejects, or a decoded message. The handler reads one message per \<^verbatim>\<open>recv\<close>; there is
  no buffer on the server's side.
\<close>

datatype recv = EOF | Undecodable | Message msg

text \<open>
  A pass through the body of the \<^verbatim>\<open>while True\<close> loop either goes on to the next read or
  raises; a raised exception leaves the loop through \<^verbatim>\<open>except Exception\<close> and runs the
  \<^verbatim>\<open>finally\<close> block.
\<close>

datatype outcome = Continue | Raised

text \<open>The \<^verbatim>\<open>create_game\<close> branch (lines 212 to 232).\<close>

definition create_game :: "real \<Rightarrow> string \<Rightarrow> server \<Rightarrow> conn \<Rightarrow> addr \<Rightarrow> msg \<Rightarrow> server \<times> outs" where
  "create_game now uuid s c a m =
     (let pw = get_default m ''password'' JNull;
          r = next_ref s;
          game = GameSession_init (Some c) None (Some c) (Some a) pw now uuid;
          s1 = s\<lparr>heap := (heap s)(r := game),
                 next_ref := Suc r,
                 waiting_games := AList.update (game_id game) r (waiting_games s),
                 lobby := remove1 (c, a) (lobby s),
                 games := AList.update c r (games s)\<rparr>
      in (s1,
          [(c, Info (''Game #'' @ game_id game
                     @ (if truthy pw then '' (Private game)'' else [])
                     @ '' created. You are White. Waiting for an opponent...''))]
          @ broadcast_lobby s1))"

text \<open>
  The \<^verbatim>\<open>join_game\<close> branch (lines 234 to 289). The creator is notified through
  \<^verbatim>\<open>game.white_conn\<close>; were that seat \<^verbatim>\<open>None\<close>, the call would raise after the
  registries have been changed.
\<close>

definition lookup_waiting :: "server \<Rightarrow> jval \<Rightarrow> (string \<times> ref) option" where
  "lookup_waiting s v =
     (case v of
        JNull \<Rightarrow> None
      | JStr k \<Rightarrow> (case map_of (waiting_games s) k of None \<Rightarrow> None | Some r \<Rightarrow> Some (k, r)))"

definition join_game ::
  "rules \<Rightarrow> real \<Rightarrow> server \<Rightarrow> conn \<Rightarrow> addr \<Rightarrow> msg \<Rightarrow> server \<times> outs \<times> outcome" where
  "join_game E now s c a m =
     (let gid = get m ''game_id''
      in case lookup_waiting s gid of
           None \<Rightarrow>
             (s, [(c, Error (''Game #'' @ py_str gid @ '' not found or already full.''))], Continue)
         | Some (k, r) \<Rightarrow>
             let game = heap s r
             in if is_private game \<and> get_default m ''password'' (JStr []) \<noteq> password game then
                  (s, [(c, Error ''Incorrect password for private game.'')], Continue)
                else
                  let g1 = game\<lparr>black_conn := Some c,
                                players := (players game)(False := Some c),
                                black_addr := Some a\<rparr>;
                      s1 = s\<lparr>heap := (heap s)(r := g1),
                             games := AList.update c r (games s),
                             waiting_games := AList.delete k (waiting_games s),
                             lobby := remove1 (c, a) (lobby s)\<rparr>
                  in case white_conn g1 of
                       None \<Rightarrow> (s1, [], Raised)
                     | Some creator \<Rightarrow>
                         let g2 = g1\<lparr>last_move_time := now\<rparr>;
                             s2 = s1\<lparr>heap := (heap s1)(r := g2)\<rparr>
                         in (s2,
                             [(creator, Info (''Game #'' @ game_id g1 @ '' started. You are White.'')),
                              (c, Info (''Game #'' @ game_id g1 @ '' started. You are Black.''))]
                             @ broadcast g1 (TurnMsg ''White'' None None)
                             @ broadcast g1 (BoardMsg (fen E (board g1)))
                             @ broadcast_lobby s2,
                             Continue))"

text \<open>
  The clean-up after a move that ended the game (lines 322 to 354): both seats leave
  \<^verbatim>\<open>games\<close> and go back to the lobby.
\<close>

definition delete_seat :: "conn option \<Rightarrow> (conn \<times> ref) list \<Rightarrow> (conn \<times> ref) list" where
  "delete_seat seat gs = (case seat of None \<Rightarrow> gs | Some c \<Rightarrow> AList.delete c gs)"

definition back_to_lobby :: "conn option \<Rightarrow> addr option \<Rightarrow> (conn \<times> addr) list" where
  "back_to_lobby seat a =
     (case seat of None \<Rightarrow> [] | Some c \<Rightarrow> (case a of None \<Rightarrow> [] | Some x \<Rightarrow> [(c, x)]))"

definition game_over_cleanup :: "server \<Rightarrow> ref \<Rightarrow> server \<times> outs" where
  "game_over_cleanup s r =
     (let game = heap s r;
          white = back_to_lobby (white_conn game) (creator_address game);
          black = back_to_lobby (black_conn game) (black_addr game);
          s1 = s\<lparr>games := delete_seat (black_conn game) (delete_seat (white_conn game) (games s)),
                 lobby := lobby s @ white @ black\<rparr>
      in (s1,
          map (\<lambda>(p, a). (p, Info ''Game ended. You have been returned to the lobby.'')) (white @ black)
          @ broadcast_lobby s1))"

text \<open>
  The \<^verbatim>\<open>move\<close> branch (lines 301 to 366). The texts of the exceptions that the inner
  \<^verbatim>\<open>try\<close> catches are those of a missing key, of \<^verbatim>\<open>from_uci(None)\<close>, and whatever
  \<^verbatim>\<open>from_uci\<close> reports for a string it cannot read.
\<close>

definition handle_move :: "rules \<Rightarrow> real \<Rightarrow> server \<Rightarrow> conn \<Rightarrow> ref \<Rightarrow> msg \<Rightarrow> server \<times> outs" where
  "handle_move E now s c r m =
     (let game = heap s r;
          player_color = (Some c = white_conn game)
      in if turn game \<noteq> player_color then (s, [(c, Error ''Not your turn'')])
         else
           case m ''move'' of
             None \<Rightarrow> (s, [(c, Error (''Invalid move format: '' @ [CHR 0x27] @ ''move'' @ [CHR 0x27]))])
           | Some JNull \<Rightarrow>
               (s, [(c, Error (''Invalid move format: '' @ ''object of type ''
                               @ [CHR 0x27] @ ''NoneType'' @ [CHR 0x27] @ '' has no len()''))])
           | Some (JStr txt) \<Rightarrow>
               (case from_uci E txt of
                  Inl e \<Rightarrow> (s, [(c, Error (''Invalid move format: '' @ e))])
                | Inr mv \<Rightarrow>
                    if mv \<in> set (legal_moves E (board game)) then
                      let g1 = game\<lparr>board := push (board game) mv\<rparr>;
                          o1 = broadcast g1 (MoveMsg txt (fen E (board g1)));
                          (g2, o2, ended) = next_turn E now g1;
                          s1 = s\<lparr>heap := (heap s)(r := g2)\<rparr>
                      in if ended then
                           (case game_over_cleanup s1 r of (s2, o3) \<Rightarrow> (s2, o1 @ o2 @ o3))
                         else (s1, o1 @ o2)
                    else (s, [(c, Error ''Illegal move'')])))"

text \<open>The \<^verbatim>\<open>quit_game\<close> branch (lines 374 to 436).\<close>

definition seat_address :: "GameSession \<Rightarrow> conn option \<Rightarrow> addr option" where
  "seat_address g seat =
     (if seat = white_conn g then creator_address g
      else if seat \<noteq> None then black_addr g
      else None)"

definition quit_game :: "server \<Rightarrow> conn \<Rightarrow> addr \<Rightarrow> ref \<Rightarrow> server \<times> outs" where
  "quit_game s c a r =
     (let game = heap s r;
          player_color = (if Some c = white_conn game then ''White'' else ''Black'');
          opp = opponent game c;
          over = GameOver (player_color @ '' player has quit the game.'') ''quit'';
          opponent_addr = seat_address game opp;
          back = back_to_lobby opp opponent_addr;
          s1 = s\<lparr>games := delete_seat opp (AList.delete c (games s)),
                 lobby := lobby s @ [(c, a)] @ back\<rparr>
      in (s1,
          map (\<lambda>p. (p, over)) (List.map_filter id [opp])
          @ map (\<lambda>sp. (sp, over)) (game_spectators game)
          @ map (\<lambda>(p, x). (p, Info ''Your opponent has quit the game. You have been returned to the lobby.'')) back
          @ [(c, Info ''You have quit the game. Returning to lobby.'')]
          @ broadcast_lobby s1))"

text \<open>
  A message from a seated player (lines 298 to 436). \<^verbatim>\<open>msg["type"]\<close> and
  \<^verbatim>\<open>msg['msg']\<close> raise \<^verbatim>\<open>KeyError\<close> for a missing key, outside any inner \<^verbatim>\<open>try\<close>.
\<close>

definition player_message ::
  "rules \<Rightarrow> real \<Rightarrow> server \<Rightarrow> conn \<Rightarrow> addr \<Rightarrow> ref \<Rightarrow> msg \<Rightarrow> server \<times> outs \<times> outcome" where
  "player_message E now s c a r m =
     (case m ''type'' of
        None \<Rightarrow> (s, [], Raised)
      | Some ty \<Rightarrow>
          if ty = JStr ''move'' then
            (case handle_move E now s c r m of (s1, o1) \<Rightarrow> (s1, o1, Continue))
          else if ty = JStr ''chat'' then
            (case m ''msg'' of
               None \<Rightarrow> (s, [], Raised)
             | Some v \<Rightarrow>
                 (s,
                  broadcast (heap s r)
                    (Chat ((if Some c = white_conn (heap s r) then ''White'' else ''Black'')
                           @ '': '' @ py_str v)),
                  Continue))
          else if ty = JStr ''quit_game'' then
            (case quit_game s c a r of (s1, o1) \<Rightarrow> (s1, o1, Continue))
          else (s, [], Continue))"

text \<open>A message from a spectator (lines 438 to 446).\<close>

definition spectator_message :: "server \<Rightarrow> conn \<Rightarrow> msg \<Rightarrow> server \<times> outs \<times> outcome" where
  "spectator_message s c m =
     (case map_of (spectators s) c of
        None \<Rightarrow> (s, [], Continue)
      | Some r \<Rightarrow>
          (case m ''type'' of
             None \<Rightarrow> (s, [], Raised)
           | Some ty \<Rightarrow>
               if ty = JStr ''chat'' then
                 (case m ''msg'' of
                    None \<Rightarrow> (s, [], Raised)
                  | Some v \<Rightarrow> (s, broadcast (heap s r) (Chat (''Spectator: '' @ py_str v)), Continue))
               else (s, [], Continue)))"

text \<open>The body of the main loop for one decoded message (lines 209 to 446).\<close>

definition handle_message ::
  "rules \<Rightarrow> real \<Rightarrow> string \<Rightarrow> server \<Rightarrow> conn \<Rightarrow> client \<Rightarrow> msg \<Rightarrow> server \<times> outs \<times> outcome" where
  "handle_message E now uuid s c cl m =
     (let a = addr cl;
          in_lobby = (assigned_role cl = Some Player \<and> (c, a) \<in> set (lobby s))
      in if get m ''type'' = JStr ''create_game'' \<and> in_lobby then
           (case create_game now uuid s c a m of (s1, o1) \<Rightarrow> (s1, o1, Continue))
         else if get m ''type'' = JStr ''join_game'' \<and> in_lobby then join_game E now s c a m
         else if get m ''type'' = JStr ''lobby_request'' \<and> assigned_role cl = Some Player then
           (s, broadcast_lobby s, Continue)
         else if assigned_role cl = Some Player \<and> map_of (games s) c \<noteq> None then
           (case map_of (games s) c of
              None \<Rightarrow> (s, [], Continue)
            | Some r \<Rightarrow> player_message E now s c a r m)
         else if assigned_role cl = Some Spectator then spectator_message s c m
         else (s, [], Continue))"

text \<open>
  The \<^verbatim>\<open>finally\<close> block (lines 450 to 534), run once when the loop is left. The first
  waiting game the connection created is dropped; then, if the connection is a key of
  \<^verbatim>\<open>games\<close>, that game is taken apart and its spectators are unbound.
\<close>

definition first_waiting_of :: "server \<Rightarrow> conn \<Rightarrow> string option" where
  "first_waiting_of s c =
     map_option fst (find (\<lambda>(gid, r). creator_conn (heap s r) = Some c) (waiting_games s))"

definition leave_lobby :: "server \<Rightarrow> conn \<Rightarrow> addr \<Rightarrow> server \<times> outs" where
  "leave_lobby s c a =
     (if (c, a) \<in> set (lobby s) then
        (let s1 = s\<lparr>lobby := remove1 (c, a) (lobby s)\<rparr> in (s1, broadcast_lobby s1))
      else (s, []))"

definition drop_waiting :: "server \<Rightarrow> conn \<Rightarrow> server \<times> outs" where
  "drop_waiting s c =
     (case first_waiting_of s c of
        None \<Rightarrow> (s, [])
      | Some gid \<Rightarrow>
          if gid = [] then (s, [])
          else (let s1 = s\<lparr>waiting_games := AList.delete gid (waiting_games s)\<rparr>
                in (s1, broadcast_lobby s1)))"

definition drop_game :: "server \<Rightarrow> conn \<Rightarrow> server \<times> outs" where
  "drop_game s c =
     (case map_of (games s) c of
        None \<Rightarrow> (s, [])
      | Some r \<Rightarrow>
          let game = heap s r;
              other = opponent game c;
              other_addr = seat_address game other;
              s1 = s\<lparr>games := delete_seat other (AList.delete c (games s)),
                     lobby := lobby s @ back_to_lobby other other_addr,
                     spectators := fold AList.delete (game_spectators game) (spectators s)\<rparr>
          in (s1,
              concat (map (\<lambda>p. [(p, Info ''Opponent disconnected. Game ended.''),
                                 (p, GameOver ''Opponent disconnected.'' ''disconnection'')])
                        (List.map_filter id [other]))
              @ map (\<lambda>sp. (sp, Info ''Game ended due to player disconnection.''))
                  (game_spectators game)
              @ broadcast_lobby s1))"

definition disconnect_cleanup :: "server \<Rightarrow> conn \<Rightarrow> client \<Rightarrow> server \<times> outs" where
  "disconnect_cleanup s c cl =
     (case assigned_role cl of
        None \<Rightarrow> (s, [])
      | Some Spectator \<Rightarrow> (s\<lparr>spectators := AList.delete c (spectators s)\<rparr>, [])
      | Some Player \<Rightarrow>
          (case leave_lobby s c (addr cl) of
             (s1, o1) \<Rightarrow>
               (case drop_waiting s1 c of
                  (s2, o2) \<Rightarrow>
                    (case drop_game s2 c of (s3, o3) \<Rightarrow> (s3, o1 @ o2 @ o3)))))"

definition close_handler :: "server \<Rightarrow> conn \<Rightarrow> client \<Rightarrow> server \<times> outs" where
  "close_handler s c cl =
     (case disconnect_cleanup s c cl of
        (s1, o1) \<Rightarrow> (s1\<lparr>handlers := (handlers s1)(c := None)\<rparr>, o1))"

text \<open>One iteration of the main loop of a running handler (lines 202 to 209 and on).\<close>

definition recv_step ::
  "rules \<Rightarrow> real \<Rightarrow> string \<Rightarrow> server \<Rightarrow> conn \<Rightarrow> client \<Rightarrow> recv \<Rightarrow> server \<times> outs" where
  "recv_step E now uuid s c cl data =
     (case data of
        EOF \<Rightarrow> close_handler s c cl
      | Undecodable \<Rightarrow> close_handler s c cl
      | Message m \<Rightarrow>
          (case handle_message E now uuid s c cl m of
             (s1, o1, Continue) \<Rightarrow> (s1, o1)
           | (s1, o1, Raised) \<Rightarrow>
               (case close_handler s1 c cl of (s2, o2) \<Rightarrow> (s2, o1 @ o2))))"

text \<open>
  The start of a handler (lines 152 to 199): the first read must be a \<^verbatim>\<open>join\<close>. A
  player enters the lobby; a spectator is bound to the game with the given id among the
  values of \<^verbatim>\<open>games\<close>. The values are visited in dictionary order here (Python iterates
  a set of them, in no specified order). A handler that returns here never enters the
  loop; its \<^verbatim>\<open>finally\<close> block finds no role and only closes the socket.
\<close>

definition active_refs :: "server \<Rightarrow> ref list" where
  "active_refs s = remdups (map snd (games s))"

definition first_message :: "rules \<Rightarrow> server \<Rightarrow> conn \<Rightarrow> addr \<Rightarrow> recv \<Rightarrow> server \<times> outs" where
  "first_message E s c a data =
     (case data of
        EOF \<Rightarrow> (s, [])
      | Undecodable \<Rightarrow> (s, [])
      | Message m \<Rightarrow>
          if get m ''type'' = JStr ''join'' then
            (let role = get_default m ''role'' (JStr ''player'')
             in if role = JStr ''player'' then
                  (let s1 = s\<lparr>lobby := lobby s @ [(c, a)],
                              handlers := (handlers s)(c \<mapsto> \<lparr>addr = a, assigned_role = Some Player\<rparr>)\<rparr>
                   in (s1, [(c, Info ''Joined lobby. Create or join a game.'')] @ broadcast_lobby s1))
                else if role = JStr ''spectator'' then
                  (let gid = get m ''game_id'';
                       s1 = s\<lparr>handlers := (handlers s)(c \<mapsto> \<lparr>addr = a, assigned_role = Some Spectator\<rparr>)\<rparr>
                   in case find (\<lambda>r. JStr (game_id (heap s r)) = gid) (active_refs s) of
                        Some r \<Rightarrow>
                          (case add_spectator E (heap s r) c of
                             (g1, o1) \<Rightarrow>
                               (s1\<lparr>heap := (heap s)(r := g1),
                                   spectators := AList.update c r (spectators s)\<rparr>, o1))
                      | None \<Rightarrow>
                          (s1, [(c, GameNotFound gid (map (\<lambda>r. game_id (heap s r)) (active_refs s)))]))
                else (s\<lparr>handlers := (handlers s)(c \<mapsto> \<lparr>addr = a, assigned_role = None\<rparr>)\<rparr>, []))
          else (s, [(c, Error ''First message must be a join request'')]))"

section \<open>The server: timeout watchdog\<close>

text \<open>
  \<^verbatim>\<open>check_move_timers\<close> (lines 561 to 639). One scan reads the clock once
  (\<open>current_time\<close>) and visits every value of \<^verbatim>\<open>games\<close>; a game that has timed out reads
  the clock again (\<open>now\<close>) for its new timestamp.
\<close>

definition timeout_game :: "rules \<Rightarrow> real \<Rightarrow> real \<Rightarrow> GameSession \<Rightarrow> GameSession \<times> outs" where
  "timeout_game E current_time now game =
     (let elapsed_time = current_time - last_move_time game
      in if elapsed_time > real MOVE_TIMEOUT_SECONDS then
           (case players game (turn game) of
              None \<Rightarrow> (game, [])
            | Some timed_out_player \<Rightarrow>
                let opponent_color = \<not> turn game;
                    player_color = color_name (turn game);
                    o1 = broadcast game
                           (Info (player_color @ '' took too long. Turn passes to opponent.''));
                    g1 = game\<lparr>last_move_time := now, turn := opponent_color\<rparr>
                in (g1,
                    o1
                    @ broadcast g1
                        (TimeoutSync player_color (fen E (board g1)) (color_name opponent_color))
                    @ broadcast g1 (BoardMsg (fen E (board g1)))
                    @ broadcast g1
                        (TurnMsg (color_name opponent_color) (Some ''active'')
                           (Some MOVE_TIMEOUT_SECONDS))))
         else (game, []))"

fun scan_games :: "rules \<Rightarrow> real \<Rightarrow> (ref \<Rightarrow> real) \<Rightarrow> ref list \<Rightarrow> server \<Rightarrow> server \<times> outs" where
  "scan_games E current_time clock [] s = (s, [])"
| "scan_games E current_time clock (r # rs) s =
     (case timeout_game E current_time (clock r) (heap s r) of
        (g1, o1) \<Rightarrow>
          (case scan_games E current_time clock rs (s\<lparr>heap := (heap s)(r := g1)\<rparr>) of
             (s1, o2) \<Rightarrow> (s1, o1 @ o2)))"

definition check_move_timers :: "rules \<Rightarrow> real \<Rightarrow> (ref \<Rightarrow> real) \<Rightarrow> server \<Rightarrow> server \<times> outs" where
  "check_move_timers E current_time clock s = scan_games E current_time clock (active_refs s) s"

section \<open>The server as a transition system\<close>

text \<open>
  The events of a run: a connection is accepted and its first read arrives; a running
  handler finishes one read (with the clock reading and the fresh identifier that the
  branch it takes may ask for); the watchdog wakes up. Each event is one step.
\<close>

datatype event =
    Accept addr recv
  | Recv conn recv real string
  | Tick real "ref \<Rightarrow> real"

fun step :: "rules \<Rightarrow> server \<Rightarrow> event \<Rightarrow> server \<times> outs" where
  "step E s (Accept a data) =
     (case first_message E s (next_conn s) a data of
        (s1, o1) \<Rightarrow> (s1\<lparr>next_conn := Suc (next_conn s)\<rparr>, o1))"
| "step E s (Recv c data now uuid) =
     (case handlers s c of
        None \<Rightarrow> (s, [])
      | Some cl \<Rightarrow> recv_step E now uuid s c cl data)"
| "step E s (Tick current_time clock) = check_move_timers E current_time clock s"

fun run :: "rules \<Rightarrow> server \<Rightarrow> event list \<Rightarrow> server \<times> outs" where
  "run E s [] = (s, [])"
| "run E s (e # es) =
     (case step E s e of (s1, o1) \<Rightarrow> (case run E s1 es of (s2, o2) \<Rightarrow> (s2, o1 @ o2)))"


section \<open>The local search opponent\<close>

text \<open>
  \<^verbatim>\<open>ChessAI\<close> (chess_ai.py). Scores are Python numbers: the integers that
  \<^verbatim>\<open>_evaluate_board\<close> returns and the two infinite floats the search starts from.
  The search pushes a move, looks at the board and pops the move again; the model passes
  the pushed board down and keeps the old one.
\<close>

datatype score = NegInf | Fin int | PosInf

fun sneg :: "score \<Rightarrow> score" where
  "sneg NegInf = PosInf"
| "sneg (Fin n) = Fin (- n)"
| "sneg PosInf = NegInf"

fun sless :: "score \<Rightarrow> score \<Rightarrow> bool" where
  "sless NegInf NegInf = False"
| "sless NegInf _ = True"
| "sless (Fin a) (Fin b) = (a < b)"
| "sless (Fin a) PosInf = True"
| "sless (Fin a) NegInf = False"
| "sless PosInf _ = False"

definition smax :: "score \<Rightarrow> score \<Rightarrow> score" where
  "smax a b = (if sless a b then b else a)"

definition smin :: "score \<Rightarrow> score \<Rightarrow> score" where
  "smin a b = (if sless b a then b else a)"

definition sge :: "score \<Rightarrow> score \<Rightarrow> bool" where
  "sge a b = (\<not> sless a b)"

definition piece_value :: "piece_type \<Rightarrow> int" where
  "piece_value pt =
     (case pt of PAWN \<Rightarrow> 100 | KNIGHT \<Rightarrow> 320 | BISHOP \<Rightarrow> 330 | ROOK \<Rightarrow> 500 | QUEEN \<Rightarrow> 900
      | KING \<Rightarrow> 20000)"

definition pawn_table :: "int list" where
  "pawn_table =
     [0, 0, 0, 0, 0, 0, 0, 0,
      5, 10, 10, -20, -20, 10, 10, 5,
      5, -5, -10, 0, 0, -10, -5, 5,
      0, 0, 0, 20, 20, 0, 0, 0,
      5, 5, 10, 25, 25, 10, 5, 5,
      10, 10, 20, 30, 30, 20, 10, 10,
      50, 50, 50, 50, 50, 50, 50, 50,
      0, 0, 0, 0, 0, 0, 0, 0]"

definition knight_table :: "int list" where
  "knight_table =
     [-50, -40, -30, -30, -30, -30, -40, -50,
      -40, -20, 0, 5, 5, 0, -20, -40,
      -30, 5, 10, 15, 15, 10, 5, -30,
      -30, 0, 15, 20, 20, 15, 0, -30,
      -30, 5, 15, 20, 20, 15, 5, -30,
      -30, 0, 10, 15, 15, 10, 0, -30,
      -40, -20, 0, 0, 0, 0, -20, -40,
      -50, -40, -30, -30, -30, -30, -40, -50]"

definition bishop_table :: "int list" where
  "bishop_table =
     [-20, -10, -10, -10, -10, -10, -10, -20,
      -10, 5, 0, 0, 0, 0, 5, -10,
      -10, 10, 10, 10, 10, 10, 10, -10,
      -10, 0, 10, 10, 10, 10, 0, -10,
      -10, 5, 5, 10, 10, 5, 5, -10,
      -10, 0, 5, 10, 10, 5, 0, -10,
      -10, 0, 0, 0, 0, 0, 0, -10,
      -20, -10, -10, -10, -10, -10, -10, -20]"

definition rook_table :: "int list" where
  "rook_table =
     [0, 0, 0, 5, 5, 0, 0, 0,
      -5, 0, 0, 0, 0, 0, 0, -5,
      -5, 0, 0, 0, 0, 0, 0, -5,
      -5, 0, 0, 0, 0, 0, 0, -5,
      -5, 0, 0, 0, 0, 0, 0, -5,
      -5, 0, 0, 0, 0, 0, 0, -5,
      5, 10, 10, 10, 10, 10, 10, 5,
      0, 0, 0, 0, 0, 0, 0, 0]"

definition queen_table :: "int list" where
  "queen_table =
     [-20, -10, -10, -5, -5, -10, -10, -20,
      -10, 0, 5, 0, 0, 0, 0, -10,
      -10, 5, 5, 5, 5, 5, 0, -10,
      0, 0, 5, 5, 5, 5, 0, -5,
      -5, 0, 5, 5, 5, 5, 0, -5,
      -10, 0, 5, 5, 5, 5, 0, -10,
      -10, 0, 0, 0, 0, 0, 0, -10,
      -20, -10, -10, -5, -5, -10, -10, -20]"

definition king_middlegame_table :: "int list" where
  "king_middlegame_table =
     [20, 30, 10, 0, 0, 10, 30, 20,
      20, 20, 0, 0, 0, 0, 20, 20,
      -10, -20, -20, -20, -20, -20, -20, -10,
      -20, -30, -30, -40, -40, -30, -30, -20,
      -30, -40, -40, -50, -50, -40, -40, -30,
      -30, -40, -40, -50, -50, -40, -40, -30,
      -30, -40, -40, -50, -50, -40, -40, -30,
      -30, -40, -40, -50, -50, -40, -40, -30]"

definition piece_tables :: "piece_type \<Rightarrow> int list" where
  "piece_tables pt =
     (case pt of PAWN \<Rightarrow> pawn_table | KNIGHT \<Rightarrow> knight_table | BISHOP \<Rightarrow> bishop_table
      | ROOK \<Rightarrow> rook_table | QUEEN \<Rightarrow> queen_table | KING \<Rightarrow> king_middlegame_table)"

definition square_score :: "rules \<Rightarrow> board \<Rightarrow> nat \<Rightarrow> int" where
  "square_score E b square =
     (case piece_at E b square of
        None \<Rightarrow> 0
      | Some (pt, col) \<Rightarrow>
          piece_value pt * (if col then 1 else - 1)
          + (if col then piece_tables pt ! (63 - square) else piece_tables pt ! square * - 1))"

definition evaluate_board :: "rules \<Rightarrow> board \<Rightarrow> int" where
  "evaluate_board E b =
     (if is_checkmate E b then (if board_turn b then - 10000 else 10000)
      else if is_stalemate E b \<or> is_insufficient_material E b then 0
      else
        (let score = (\<Sum>square \<leftarrow> [0..<64]. square_score E b square);
             white_moves = int (length (legal_moves E (b\<lparr>board_turn := True\<rparr>)));
             black_moves = int (length (legal_moves E (b\<lparr>board_turn := False\<rparr>)))
         in score + (white_moves - black_moves) * 5))"

text \<open>
  The two loops of \<^verbatim>\<open>_minimax\<close>, with their cut-offs; \<open>f\<close> is the recursive call for
  one move.
\<close>

fun max_loop ::
  "(move \<Rightarrow> score \<Rightarrow> score \<Rightarrow> score) \<Rightarrow> move list \<Rightarrow> score \<Rightarrow> score \<Rightarrow> score \<Rightarrow> score" where
  "max_loop f [] v alpha beta = v"
| "max_loop f (m # ms) v alpha beta =
     (let v1 = smax v (f m alpha beta);
          alpha1 = smax alpha v1
      in if sge alpha1 beta then v1 else max_loop f ms v1 alpha1 beta)"

fun min_loop ::
  "(move \<Rightarrow> score \<Rightarrow> score \<Rightarrow> score) \<Rightarrow> move list \<Rightarrow> score \<Rightarrow> score \<Rightarrow> score \<Rightarrow> score" where
  "min_loop f [] v alpha beta = v"
| "min_loop f (m # ms) v alpha beta =
     (let v1 = smin v (f m alpha beta);
          beta1 = smin beta v1
      in if sge alpha beta1 then v1 else min_loop f ms v1 alpha beta1)"

primrec minimax :: "rules \<Rightarrow> nat \<Rightarrow> board \<Rightarrow> score \<Rightarrow> score \<Rightarrow> bool \<Rightarrow> score" where
  "minimax E 0 b alpha beta is_maximizing = Fin (evaluate_board E b)"
| "minimax E (Suc depth) b alpha beta is_maximizing =
     (if is_game_over E b then Fin (evaluate_board E b)
      else if is_maximizing then
        max_loop (\<lambda>m a c. minimax E depth (push b m) a c False) (legal_moves E b) NegInf alpha beta
      else
        min_loop (\<lambda>m a c. minimax E depth (push b m) a c True) (legal_moves E b) PosInf alpha beta)"

text \<open>
  \<^verbatim>\<open>_minimax_root\<close>. It is called with the depth 2 or 3 that the constructor sets, so
  \<open>depth - 1\<close> is the predecessor.
\<close>

fun root_loop ::
  "rules \<Rightarrow> nat \<Rightarrow> board \<Rightarrow> move list \<Rightarrow> move \<Rightarrow> score \<Rightarrow> score \<Rightarrow> score \<Rightarrow> move" where
  "root_loop E depth b [] best_move best_value alpha beta = best_move"
| "root_loop E depth b (m # ms) best_move best_value alpha beta =
     (let b1 = push b m;
          v = sneg (minimax E (depth - 1) b1 (sneg beta) (sneg alpha) (\<not> board_turn b1))
      in root_loop E depth b ms
           (if sless best_value v then m else best_move)
           (if sless best_value v then v else best_value)
           (smax alpha v) beta)"

definition minimax_root :: "rules \<Rightarrow> board \<Rightarrow> nat \<Rightarrow> move option" where
  "minimax_root E b depth =
     (case legal_moves E b of
        [] \<Rightarrow> None
      | m0 # ms \<Rightarrow> Some (root_loop E depth b (m0 # ms) m0 NegInf NegInf PosInf))"

text \<open>
  \<^verbatim>\<open>_get_random_move\<close>. The random source is made explicit: the two numbers that
  \<^verbatim>\<open>random.random()\<close> may be asked for and the index that \<^verbatim>\<open>random.choice\<close> draws.
  \<^verbatim>\<open>random.choice\<close> of an empty list raises \<^verbatim>\<open>IndexError\<close>.
\<close>

record rand =
  coin1 :: real
  coin2 :: real
  pick :: nat

datatype py_error = IndexError

definition choice :: "rand \<Rightarrow> 'a list \<Rightarrow> py_error + 'a" where
  "choice rnd xs = (if xs = [] then Inl IndexError else Inr (xs ! (pick rnd mod length xs)))"

definition get_random_move :: "rules \<Rightarrow> rand \<Rightarrow> board \<Rightarrow> py_error + move" where
  "get_random_move E rnd b =
     (let moves = legal_moves E b;
          captures = filter (\<lambda>m. is_capture E b m) moves;
          checks = filter (\<lambda>m. \<not> is_capture E b m \<and> is_check E (push b m)) moves
      in if captures \<noteq> [] \<and> coin1 rnd < 7 / 10 then choice rnd captures
         else if checks \<noteq> [] \<and> coin2 rnd < 1 / 2 then choice rnd checks
         else choice rnd moves)"

text \<open>\<^verbatim>\<open>ChessAI.__init__\<close> and \<^verbatim>\<open>ChessAI.get_move\<close>; \<^verbatim>\<open>str.lower\<close> on 8-bit characters.\<close>

definition lower_char :: "char \<Rightarrow> char" where
  "lower_char c =
     (let n = of_char c :: nat
      in if (65 \<le> n \<and> n \<le> 90) \<or> (192 \<le> n \<and> n \<le> 222 \<and> n \<noteq> 215) then char_of (n + 32) else c)"

definition lower :: "string \<Rightarrow> string" where
  "lower s = map lower_char s"

record ChessAI =
  difficulty :: string
  depth :: nat

definition ChessAI_init :: "string \<Rightarrow> ChessAI" where
  "ChessAI_init d =
     (let d1 = lower d
      in if d1 = ''easy'' then \<lparr>difficulty = d1, depth = 1\<rparr>
         else if d1 = ''medium'' then \<lparr>difficulty = d1, depth = 2\<rparr>
         else if d1 = ''hard'' then \<lparr>difficulty = d1, depth = 3\<rparr>
         else \<lparr>difficulty = ''medium'', depth = 2\<rparr>)"

definition get_move :: "rules \<Rightarrow> rand \<Rightarrow> ChessAI \<Rightarrow> board \<Rightarrow> py_error + move option" where
  "get_move E rnd ai b =
     (if difficulty ai = ''easy'' then
        (case get_random_move E rnd b of Inl e \<Rightarrow> Inl e | Inr m \<Rightarrow> Inr (Some m))
      else Inr (minimax_root E b (depth ai)))"


section \<open>A small rules instance for concrete runs\<close>

text \<open>
  The concrete runs below need some instance of \<open>rules\<close>. This one knows a single
  line of play, the four moves of the fool's mate (with one alternative first move), and
  calls the position after them a checkmate.
\<close>

definition toy_rules :: rules where
  "toy_rules =
     \<lparr>from_uci = (\<lambda>s. if s = ''f2f3'' then Inr (Move 13 21 None)
                     else if s = ''e2e4'' then Inr (Move 12 28 None)
                     else if s = ''e7e5'' then Inr (Move 52 36 None)
                     else if s = ''g2g4'' then Inr (Move 14 30 None)
                     else if s = ''d8h4'' then Inr (Move 59 31 None)
                     else Inl (''invalid uci: '' @ s)),
      legal_moves = (\<lambda>b. case length (move_stack b) of
                            0 \<Rightarrow> [Move 13 21 None, Move 12 28 None]
                          | Suc 0 \<Rightarrow> [Move 52 36 None]
                          | Suc (Suc 0) \<Rightarrow> [Move 14 30 None]
                          | Suc (Suc (Suc 0)) \<Rightarrow> [Move 59 31 None]
                          | _ \<Rightarrow> []),
      is_checkmate = (\<lambda>b. length (move_stack b) = 4),
      is_stalemate = (\<lambda>b. False),
      is_insufficient_material = (\<lambda>b. False),
      is_game_over = (\<lambda>b. length (move_stack b) = 4),
      is_check = (\<lambda>b. length (move_stack b) = 4),
      is_capture = (\<lambda>b m. False),
      fen = (\<lambda>b. starting_fen b @ (if board_turn b then '' w '' else '' b '')
                    @ replicate (length (move_stack b)) CHR ''+''),
      piece_at = (\<lambda>b sq. if sq = 4 then Some (KING, True)
                          else if sq = 60 then Some (KING, False) else None)\<rparr>"

section \<open>Properties of the decoder\<close>

text \<open>
  C3. The claim is that every way of splitting a stream into reads decodes to the same
  messages as one read of the whole stream. The decoder strips the buffer that remains
  after a message was cut off, at both ends. When a read ends after a blank inside the
  string of a second message, the blank is lost: the stream below decodes to a message
  with the string \<^verbatim>\<open>x y\<close> when read at once and to one with the string \<^verbatim>\<open>xy\<close>
  when read in two parts. (\<open>Some\<close> stands in for the parser and returns the text of
  the span it is given.)
\<close>

theorem rechunked_stream_decodes_differently:
  \<open>fst (receive_data Some new_receiver [''{"a":1}{"m":"x '', ''y"}''])
     = [''{"a":1}'', ''{"m":"xy"}''] \<and>
   fst (receive_data Some new_receiver [''{"a":1}{"m":"x '' @ ''y"}''])
     = [''{"a":1}'', ''{"m":"x y"}'']\<close>
  by code_simp

section \<open>Properties of the local search opponent\<close>

lemma choice_member: "xs \<noteq> [] \<Longrightarrow> \<exists>x. choice rnd xs = Inr x \<and> x \<in> set xs"
  by (simp add: choice_def)

lemma root_loop_member:
  "root_loop E d b ms best_move best_value alpha beta \<in> insert best_move (set ms)"
proof (induction ms arbitrary: best_move best_value alpha beta)
  case Nil
  show ?case by simp
next
  case (Cons m ms)
  show ?case using Cons.IH by (auto simp: Let_def)
qed

lemma get_random_move_member:
  assumes "legal_moves E b \<noteq> []"
  shows "\<exists>m. get_random_move E rnd b = Inr m \<and> m \<in> set (legal_moves E b)"
proof -
  let ?caps = "filter (\<lambda>m. is_capture E b m) (legal_moves E b)"
  let ?chks = "filter (\<lambda>m. \<not> is_capture E b m \<and> is_check E (push b m)) (legal_moves E b)"
  have caps: "?caps \<noteq> [] \<Longrightarrow> \<exists>m. choice rnd ?caps = Inr m \<and> m \<in> set (legal_moves E b)"
    using choice_member [of ?caps rnd] by auto
  have chks: "?chks \<noteq> [] \<Longrightarrow> \<exists>m. choice rnd ?chks = Inr m \<and> m \<in> set (legal_moves E b)"
    using choice_member [of ?chks rnd] by auto
  from caps chks choice_member [OF assms, of rnd] show ?thesis
    unfolding get_random_move_def Let_def by presburger
qed

lemma minimax_root_member:
  assumes "legal_moves E b \<noteq> []"
  shows "\<exists>m. minimax_root E b d = Some m \<and> m \<in> set (legal_moves E b)"
proof -
  from assms obtain m0 ms where ms: "legal_moves E b = m0 # ms"
    by (cases "legal_moves E b") auto
  have "root_loop E d b (m0 # ms) m0 NegInf NegInf PosInf \<in> insert m0 (set (m0 # ms))"
    by (rule root_loop_member)
  then show ?thesis by (simp add: minimax_root_def ms)
qed

text \<open>
  C10. On a board with at least one legal move, \<^verbatim>\<open>get_move\<close> of an opponent built
  with any difficulty string returns a move (it neither raises nor returns \<^verbatim>\<open>None\<close>),
  and the move is one of the board's legal moves, whatever the random source gives.
\<close>

theorem get_move_returns_legal_move:
  assumes "legal_moves E b \<noteq> []"
  shows "\<exists>m. get_move E rnd (ChessAI_init d) b = Inr (Some m) \<and> m \<in> set (legal_moves E b)"
proof (cases "difficulty (ChessAI_init d) = ''easy''")
  case True
  with get_random_move_member [OF assms, of rnd] show ?thesis
    by (auto simp: get_move_def)
next
  case False
  with minimax_root_member [OF assms, of "depth (ChessAI_init d)"] show ?thesis
    by (auto simp: get_move_def)
qed

theorem get_move_returns_legal_move_witness:
  "legal_moves toy_rules new_board \<noteq> [] \<and>
   (\<exists>m. get_move toy_rules \<lparr>coin1 = 1 / 4, coin2 = 3 / 4, pick = 5\<rparr> (ChessAI_init ''Hard'') new_board
          = Inr (Some m) \<and> m \<in> set (legal_moves toy_rules new_board))"
proof -
  have h: "legal_moves toy_rules new_board \<noteq> []"
    by (simp add: toy_rules_def new_board_def)
  from h get_move_returns_legal_move [OF h] show ?thesis by blast
qed

end
